theory Spec2Isabelle
  imports
    Complex_Main
    "HOL-Library.Char_ord"
    "HOL-Library.List_Lexorder"
    "HOL-Library.Product_Lexorder"
    "HOL-Library.Sublist"
begin

section \<open>The Python runtime the code relies on\<close>

text \<open>
  The code calls \<^verbatim>\<open>hashlib.md5\<close>, \<^verbatim>\<open>hashlib.sha256\<close> and formats floats
  and dictionary items into strings. None of these is code of the repository, so they
  are parameters of the model: every definition that hashes takes a \<open>runtime\<close>, and
  every theorem that mentions one holds for all of them. Strings are \<open>char list\<close>;
  \<^verbatim>\<open>len\<close> and slicing count list elements.
\<close>

record runtime =
  md5_hexdigest :: "string \<Rightarrow> string"
  sha256_hexdigest :: "string \<Rightarrow> string"
  float_str :: "real \<Rightarrow> string"
  items_str :: "(string \<times> int) list \<Rightarrow> string"

datatype error = ValueError string | KeyError string | IndexError | TypeError | AttributeError | RedisError

text \<open>Python's \<^verbatim>\<open>str\<close> of an \<^verbatim>\<open>int\<close>: decimal digits, a leading minus sign.\<close>

definition digit_char :: "nat \<Rightarrow> char" where
  "digit_char d = ''0123456789'' ! d"

function str_nat :: "nat \<Rightarrow> string" where
  "str_nat n = (if n < 10 then [digit_char n] else str_nat (n div 10) @ [digit_char (n mod 10)])"
  by pat_completeness auto
termination
  by (relation "measure id") auto

definition str_int :: "int \<Rightarrow> string" where
  "str_int i = (if i < 0 then CHR ''-'' # str_nat (nat (- i)) else str_nat (nat i))"

section \<open>ot.py: operation kinds and vector clocks\<close>

datatype OperationType = RETAIN | INSERT | DELETE

text \<open>The enum member's \<^verbatim>\<open>.value\<close>.\<close>

fun type_value :: "OperationType \<Rightarrow> string" where
  "type_value RETAIN = ''retain''"
| "type_value INSERT = ''insert''"
| "type_value DELETE = ''delete''"

text \<open>
  \<^verbatim>\<open>VectorClock.clocks\<close> is a dict from client id to counter, kept here as an
  association list in insertion order; \<^verbatim>\<open>clocks.get(c, 0)\<close> reads the first binding.
\<close>

record VectorClock =
  clocks :: "(string \<times> int) list"

definition clocks_get :: "VectorClock \<Rightarrow> string \<Rightarrow> int" where
  "clocks_get vc c = (case map_of (clocks vc) c of None \<Rightarrow> 0 | Some v \<Rightarrow> v)"

text \<open>\<^verbatim>\<open>d[k] = v\<close>: an existing key keeps its place, a new key goes last.\<close>

fun dict_set :: "string \<Rightarrow> int \<Rightarrow> (string \<times> int) list \<Rightarrow> (string \<times> int) list" where
  "dict_set k v [] = [(k, v)]"
| "dict_set k v ((k', v') # d) = (if k' = k then (k, v) # d else (k', v') # dict_set k v d)"

definition increment :: "VectorClock \<Rightarrow> string \<Rightarrow> VectorClock" where
  "increment vc client = vc\<lparr>clocks := dict_set client (clocks_get vc client + 1) (clocks vc)\<rparr>"

definition update :: "VectorClock \<Rightarrow> VectorClock \<Rightarrow> VectorClock" where
  "update vc other =
     fold (\<lambda>(client, clock_value) s.
             s\<lparr>clocks := dict_set client (max (clocks_get s client) clock_value) (clocks s)\<rparr>)
          (clocks other) vc"

text \<open>
  The loop of \<^verbatim>\<open>compare\<close> over \<^verbatim>\<open>all_clients\<close>, with the two flags as the
  loop state \<open>(self_less, other_less)\<close>. The flags are named as in the source: the
  source sets \<open>other_less\<close> where \<open>self_val < other_val\<close> and \<open>self_less\<close> where
  \<open>self_val > other_val\<close>.
\<close>

fun compare_loop :: "VectorClock \<Rightarrow> VectorClock \<Rightarrow> string list \<Rightarrow> bool \<times> bool \<Rightarrow> bool \<times> bool" where
  "compare_loop self other [] (self_less, other_less) = (self_less, other_less)"
| "compare_loop self other (client # rest) (self_less, other_less) =
     (let self_val = clocks_get self client;
          other_val = clocks_get other client
      in if self_val < other_val then compare_loop self other rest (self_less, True)
         else if self_val > other_val then compare_loop self other rest (True, other_less)
         else compare_loop self other rest (self_less, other_less))"

definition compare :: "VectorClock \<Rightarrow> VectorClock \<Rightarrow> string" where
  "compare self other =
     (let all_clients = remdups (map fst (clocks self) @ map fst (clocks other));
          (self_less, other_less) = compare_loop self other all_clients (False, False)
      in if self_less \<and> other_less then ''concurrent''
         else if self_less \<and> \<not> other_less then ''before''
         else if other_less \<and> \<not> self_less then ''after''
         else ''equal'')"

definition copy :: "VectorClock \<Rightarrow> VectorClock" where
  "copy vc = \<lparr>clocks = clocks vc\<rparr>"

section \<open>ot.py: operations\<close>

record Operation =
  type_op :: OperationType
  position :: int
  text_op :: string
  length_op :: int
  client_id :: string
  operation_id :: string
  vector_clock :: VectorClock
  timestamp :: real
  checksum :: string

definition generate_operation_id :: "runtime \<Rightarrow> Operation \<Rightarrow> string" where
  "generate_operation_id rt op =
     take 16 (md5_hexdigest rt
       (client_id op @ ''_'' @ float_str rt (timestamp op) @ ''_'' @ type_value (type_op op)
          @ ''_'' @ str_int (position op)))"

definition generate_checksum :: "runtime \<Rightarrow> Operation \<Rightarrow> string" where
  "generate_checksum rt op =
     take 32 (sha256_hexdigest rt
       (type_value (type_op op) @ ''_'' @ str_int (position op) @ ''_'' @ text_op op
          @ ''_'' @ str_int (length_op op)))"

text \<open>
  \<^verbatim>\<open>Operation(...)\<close>: the dataclass stores the nine fields it is given and runs
  \<^verbatim>\<open>__post_init__\<close>. The argument record holds the fields as passed (the caller
  fills the defaults: empty text, length 0, empty ids, the current time).
\<close>

definition post_init :: "runtime \<Rightarrow> Operation \<Rightarrow> error + Operation" where
  "post_init rt op =
     (if type_op op = INSERT \<and> text_op op = [] then Inl (ValueError ''Insert operations must have text'')
      else if type_op op = DELETE \<and> length_op op \<le> 0
        then Inl (ValueError ''Delete operations must have positive length'')
      else
        let op1 = (if operation_id op = [] then op\<lparr>operation_id := generate_operation_id rt op\<rparr> else op);
            op2 = (if checksum op1 = [] then op1\<lparr>checksum := generate_checksum rt op1\<rparr> else op1)
        in Inr op2)"

definition verify_integrity :: "runtime \<Rightarrow> Operation \<Rightarrow> bool" where
  "verify_integrity rt op = (checksum op = generate_checksum rt op)"

section \<open>ot.py: applying operations\<close>

definition apply_operation :: "runtime \<Rightarrow> string \<Rightarrow> Operation \<Rightarrow> error + string" where
  "apply_operation rt text operation =
     (if \<not> verify_integrity rt operation
        then Inl (ValueError (''Operation integrity check failed: '' @ operation_id operation))
      else
        let text_len = int (length text) in
        if type_op operation = INSERT then
          let pos = max 0 (min (position operation) text_len)
          in Inr (take (nat pos) text @ text_op operation @ drop (nat pos) text)
        else if type_op operation = DELETE then
          let start_pos = max 0 (min (position operation) text_len);
              end_pos = max start_pos (min (position operation + length_op operation) text_len)
          in Inr (take (nat start_pos) text @ drop (nat end_pos) text)
        else Inr text)"

section \<open>ot.py: transforming a pair of operations\<close>

definition operations_conflict :: "Operation \<Rightarrow> Operation \<Rightarrow> bool" where
  "operations_conflict op1 op2 =
     (if type_op op1 = RETAIN \<or> type_op op2 = RETAIN then False
      else
        let op1_start = position op1;
            op1_end = position op1 + (if type_op op1 = DELETE then length_op op1 else 0);
            op2_start = position op2;
            op2_end = position op2 + (if type_op op2 = DELETE then length_op op2 else 0)
        in \<not> (op1_end \<le> op2_start \<or> op2_end \<le> op1_start))"

definition determine_priority :: "Operation \<Rightarrow> Operation \<Rightarrow> string" where
  "determine_priority op1 op2 =
     (let clock_comparison = compare (vector_clock op1) (vector_clock op2)
      in if clock_comparison = ''before'' then ''op1''
         else if clock_comparison = ''after'' then ''op2''
         else if client_id op1 < client_id op2 then ''op1''
         else if client_id op1 > client_id op2 then ''op2''
         else if timestamp op1 < timestamp op2 then ''op1'' else ''op2'')"

text \<open>
  The transformed operations are built by the constructor with the position (and for a
  delete the length) changed, the text or length, client id, operation id, a copy of the
  vector clock and the timestamp of the original, and no checksum, so that
  \<^verbatim>\<open>__post_init__\<close> computes a fresh one.
\<close>

definition rebuild_insert :: "runtime \<Rightarrow> Operation \<Rightarrow> int \<Rightarrow> error + Operation" where
  "rebuild_insert rt op pos =
     post_init rt \<lparr>type_op = type_op op, position = pos, text_op = text_op op, length_op = 0,
                   client_id = client_id op, operation_id = operation_id op,
                   vector_clock = copy (vector_clock op), timestamp = timestamp op, checksum = []\<rparr>"

definition rebuild_delete :: "runtime \<Rightarrow> Operation \<Rightarrow> int \<Rightarrow> int \<Rightarrow> error + Operation" where
  "rebuild_delete rt op pos len =
     post_init rt \<lparr>type_op = type_op op, position = pos, text_op = [], length_op = len,
                   client_id = client_id op, operation_id = operation_id op,
                   vector_clock = copy (vector_clock op), timestamp = timestamp op, checksum = []\<rparr>"

definition rebuild_retain :: "runtime \<Rightarrow> Operation \<Rightarrow> int \<Rightarrow> error + Operation" where
  "rebuild_retain rt op pos =
     post_init rt \<lparr>type_op = RETAIN, position = pos, text_op = [], length_op = 0,
                   client_id = client_id op, operation_id = operation_id op,
                   vector_clock = copy (vector_clock op), timestamp = timestamp op, checksum = []\<rparr>"

definition transform_insert_insert ::
  "runtime \<Rightarrow> Operation \<Rightarrow> Operation \<Rightarrow> string \<Rightarrow> error + (Operation \<times> Operation)" where
  "transform_insert_insert rt op1 op2 priority =
     (if position op1 < position op2 then
        (case rebuild_insert rt op2 (position op2 + int (length (text_op op1))) of
           Inl e \<Rightarrow> Inl e | Inr op2_prime \<Rightarrow> Inr (op1, op2_prime))
      else if position op1 > position op2 then
        (case rebuild_insert rt op1 (position op1 + int (length (text_op op2))) of
           Inl e \<Rightarrow> Inl e | Inr op1_prime \<Rightarrow> Inr (op1_prime, op2))
      else if priority = ''op1'' then
        (case rebuild_insert rt op2 (position op2 + int (length (text_op op1))) of
           Inl e \<Rightarrow> Inl e | Inr op2_prime \<Rightarrow> Inr (op1, op2_prime))
      else
        (case rebuild_insert rt op1 (position op1 + int (length (text_op op2))) of
           Inl e \<Rightarrow> Inl e | Inr op1_prime \<Rightarrow> Inr (op1_prime, op2)))"

definition transform_insert_delete ::
  "runtime \<Rightarrow> Operation \<Rightarrow> Operation \<Rightarrow> error + (Operation \<times> Operation)" where
  "transform_insert_delete rt op_insert op_delete =
     (let delete_start = position op_delete;
          delete_end = position op_delete + length_op op_delete
      in if position op_insert \<le> delete_start then
           (case rebuild_delete rt op_delete (position op_delete + int (length (text_op op_insert)))
                   (length_op op_delete) of
              Inl e \<Rightarrow> Inl e | Inr op_delete_prime \<Rightarrow> Inr (op_insert, op_delete_prime))
         else if position op_insert \<ge> delete_end then
           (case rebuild_insert rt op_insert (position op_insert - length_op op_delete) of
              Inl e \<Rightarrow> Inl e | Inr op_insert_prime \<Rightarrow> Inr (op_insert_prime, op_delete))
         else
           (case rebuild_insert rt op_insert delete_start of
              Inl e \<Rightarrow> Inl e
            | Inr op_insert_prime \<Rightarrow>
                (case rebuild_delete rt op_delete (position op_delete + int (length (text_op op_insert)))
                        (length_op op_delete) of
                   Inl e \<Rightarrow> Inl e
                 | Inr op_delete_prime \<Rightarrow> Inr (op_insert_prime, op_delete_prime))))"

text \<open>One half of \<^verbatim>\<open>_transform_delete_delete\<close>: \<open>op\<close> transformed against \<open>other\<close>.\<close>

definition transform_delete_against ::
  "runtime \<Rightarrow> Operation \<Rightarrow> Operation \<Rightarrow> int \<Rightarrow> int \<Rightarrow> error + Operation" where
  "transform_delete_against rt op other overlap_length min_start =
     (let op_start = position op; op_end = position op + length_op op;
          other_start = position other; other_end = position other + length_op other
      in if other_end \<le> op_start then rebuild_delete rt op (position op - length_op other) (length_op op)
         else if other_start \<ge> op_end then Inr op
         else
           let new_length = length_op op - overlap_length
           in if new_length \<le> 0 then rebuild_retain rt op min_start
              else rebuild_delete rt op min_start new_length)"

definition transform_delete_delete ::
  "runtime \<Rightarrow> Operation \<Rightarrow> Operation \<Rightarrow> error + (Operation \<times> Operation)" where
  "transform_delete_delete rt op1 op2 =
     (let op1_start = position op1; op1_end = position op1 + length_op op1;
          op2_start = position op2; op2_end = position op2 + length_op op2;
          overlap_start = max op1_start op2_start;
          overlap_end = min op1_end op2_end;
          overlap_length = max 0 (overlap_end - overlap_start)
      in case transform_delete_against rt op1 op2 overlap_length (min op1_start op2_start) of
           Inl e \<Rightarrow> Inl e
         | Inr op1_prime \<Rightarrow>
             (case transform_delete_against rt op2 op1 overlap_length (min op1_start op2_start) of
                Inl e \<Rightarrow> Inl e
              | Inr op2_prime \<Rightarrow> Inr (op1_prime, op2_prime)))"

definition transform_operation_pair ::
  "runtime \<Rightarrow> Operation \<Rightarrow> Operation \<Rightarrow> error + (Operation \<times> Operation)" where
  "transform_operation_pair rt op1 op2 =
     (if client_id op1 = client_id op2 \<or> \<not> operations_conflict op1 op2 then Inr (op1, op2)
      else
        let priority = determine_priority op1 op2
        in if type_op op1 = INSERT \<and> type_op op2 = INSERT then transform_insert_insert rt op1 op2 priority
           else if type_op op1 = INSERT \<and> type_op op2 = DELETE then transform_insert_delete rt op1 op2
           else if type_op op1 = DELETE \<and> type_op op2 = INSERT then
             (case transform_insert_delete rt op2 op1 of
                Inl e \<Rightarrow> Inl e
              | Inr (op2_prime, op1_prime) \<Rightarrow> Inr (op1_prime, op2_prime))
           else if type_op op1 = DELETE \<and> type_op op2 = DELETE then transform_delete_delete rt op1 op2
           else Inr (op1, op2))"

section \<open>ot.py: batches\<close>

text \<open>
  The loop of \<^verbatim>\<open>apply_operations\<close> over the sorted operations; the loop state is
  \<open>result\<close> and \<open>position_offset\<close>. The adjusted operation is built by the
  constructor from the fields of \<open>op\<close>, its checksum included.
\<close>

fun apply_operations_loop :: "runtime \<Rightarrow> Operation list \<Rightarrow> string \<Rightarrow> int \<Rightarrow> error + string" where
  "apply_operations_loop rt [] result position_offset = Inr result"
| "apply_operations_loop rt (op # rest) result position_offset =
     (case post_init rt \<lparr>type_op = type_op op, position = position op + position_offset,
                          text_op = text_op op, length_op = length_op op, client_id = client_id op,
                          operation_id = operation_id op, vector_clock = vector_clock op,
                          timestamp = timestamp op, checksum = checksum op\<rparr> of
        Inl e \<Rightarrow> Inl e
      | Inr adjusted_op \<Rightarrow>
          (case apply_operation rt result adjusted_op of
             Inl e \<Rightarrow> Inl e
           | Inr result' \<Rightarrow>
               apply_operations_loop rt rest result'
                 (if type_op op = INSERT then position_offset + int (length (text_op op))
                  else if type_op op = DELETE then position_offset - length_op op
                  else position_offset)))"

text \<open>\<^verbatim>\<open>sorted(operations, key=lambda op: (op.timestamp, op.type.value))\<close>: a stable sort
  on pairs of a float and a string, compared lexicographically.\<close>

definition sorted_ops :: "Operation list \<Rightarrow> Operation list" where
  "sorted_ops operations = sort_key (\<lambda>op. (timestamp op, type_value (type_op op))) operations"

definition apply_operations :: "runtime \<Rightarrow> string \<Rightarrow> Operation list \<Rightarrow> error + string" where
  "apply_operations rt text operations = apply_operations_loop rt (sorted_ops operations) text 0"

text \<open>The two inner loops of \<^verbatim>\<open>transform_operations\<close> and its two outer loops.\<close>

fun transform_op1_loop :: "runtime \<Rightarrow> Operation \<Rightarrow> Operation list \<Rightarrow> error + Operation" where
  "transform_op1_loop rt current_op1 [] = Inr current_op1"
| "transform_op1_loop rt current_op1 (op2 # rest) =
     (case transform_operation_pair rt current_op1 op2 of
        Inl e \<Rightarrow> Inl e
      | Inr (current_op1', _) \<Rightarrow> transform_op1_loop rt current_op1' rest)"

fun transform_op2_loop :: "runtime \<Rightarrow> Operation list \<Rightarrow> Operation \<Rightarrow> error + Operation" where
  "transform_op2_loop rt [] current_op2 = Inr current_op2"
| "transform_op2_loop rt (op1 # rest) current_op2 =
     (case transform_operation_pair rt op1 current_op2 of
        Inl e \<Rightarrow> Inl e
      | Inr (_, current_op2') \<Rightarrow> transform_op2_loop rt rest current_op2')"

fun collect :: "('a \<Rightarrow> error + 'b) \<Rightarrow> 'a list \<Rightarrow> error + 'b list" where
  "collect f [] = Inr []"
| "collect f (x # xs) =
     (case f x of
        Inl e \<Rightarrow> Inl e
      | Inr y \<Rightarrow> (case collect f xs of Inl e \<Rightarrow> Inl e | Inr ys \<Rightarrow> Inr (y # ys)))"

definition transform_operations ::
  "runtime \<Rightarrow> Operation list \<Rightarrow> Operation list \<Rightarrow> error + (Operation list \<times> Operation list)" where
  "transform_operations rt ops1 ops2 =
     (if ops1 = [] \<or> ops2 = [] then Inr (ops1, ops2)
      else
        case collect (\<lambda>op1. transform_op1_loop rt op1 ops2) ops1 of
          Inl e \<Rightarrow> Inl e
        | Inr transformed_ops1 \<Rightarrow>
            (case collect (\<lambda>op2. transform_op2_loop rt ops1 op2) ops2 of
               Inl e \<Rightarrow> Inl e
             | Inr transformed_ops2 \<Rightarrow> Inr (transformed_ops1, transformed_ops2)))"

section \<open>ot.py: the operation buffer\<close>

text \<open>
  A method of the buffer that raises leaves the assignments made before the raise in
  place, so each method returns the buffer as it is left together with the value or the
  error. \<open>clock n\<close> is the \<open>n\<close>-th reading of \<^verbatim>\<open>time.time()\<close> during the call; the
  moving average is computed over the reals.
\<close>

record OperationBuffer =
  content :: string
  buffer_client_id :: string
  operation_history :: "Operation list"
  pending_operations :: "Operation list"
  buffer_vector_clock :: VectorClock
  state_hash :: string
  operations_processed :: int
  last_operation_time :: real
  average_processing_time :: real

definition calculate_state_hash :: "runtime \<Rightarrow> string \<Rightarrow> VectorClock \<Rightarrow> string" where
  "calculate_state_hash rt cont vc =
     (let content_hash = sha256_hexdigest rt cont;
          clock_hash = sha256_hexdigest rt (items_str rt (sort_key (\<lambda>kv. kv) (clocks vc)))
      in take 16 (sha256_hexdigest rt (content_hash @ clock_hash)))"

definition OperationBuffer_init :: "runtime \<Rightarrow> (nat \<Rightarrow> real) \<Rightarrow> string \<Rightarrow> string \<Rightarrow> OperationBuffer" where
  "OperationBuffer_init rt clock initial_content cid =
     \<lparr>content = initial_content, buffer_client_id = cid, operation_history = [],
      pending_operations = [], buffer_vector_clock = \<lparr>clocks = []\<rparr>,
      state_hash = calculate_state_hash rt initial_content \<lparr>clocks = []\<rparr>,
      operations_processed = 0, last_operation_time = clock 0, average_processing_time = 0\<rparr>"

definition update_performance_metrics :: "(nat \<Rightarrow> real) \<Rightarrow> OperationBuffer \<Rightarrow> OperationBuffer" where
  "update_performance_metrics clock b =
     (let start_time = clock 0;
          processing_time = clock 1 - start_time;
          alpha = 1 / 10
      in b\<lparr>operations_processed := operations_processed b + 1,
           average_processing_time := alpha * processing_time + (1 - alpha) * average_processing_time b,
           last_operation_time := clock 2\<rparr>)"

definition apply_local_operation ::
  "runtime \<Rightarrow> (nat \<Rightarrow> real) \<Rightarrow> OperationBuffer \<Rightarrow> Operation \<Rightarrow> OperationBuffer \<times> (error + string)" where
  "apply_local_operation rt clock b operation =
     (let b1 = b\<lparr>buffer_vector_clock := increment (buffer_vector_clock b) (buffer_client_id b)\<rparr>;
          operation' = operation\<lparr>client_id := buffer_client_id b,
                                 vector_clock := copy (buffer_vector_clock b1)\<rparr>
      in case apply_operation rt (content b1) operation' of
           Inl e \<Rightarrow> (b1, Inl e)
         | Inr new_content \<Rightarrow>
             (let b2 = b1\<lparr>content := new_content,
                          operation_history := operation_history b1 @ [operation']\<rparr>;
                  b3 = update_performance_metrics clock b2;
                  b4 = b3\<lparr>state_hash := calculate_state_hash rt (content b3) (buffer_vector_clock b3)\<rparr>
              in (b4, Inr (content b4))))"

definition apply_remote_operation ::
  "runtime \<Rightarrow> (nat \<Rightarrow> real) \<Rightarrow> OperationBuffer \<Rightarrow> Operation \<Rightarrow> OperationBuffer \<times> (error + string)" where
  "apply_remote_operation rt clock b operation =
     (if \<not> verify_integrity rt operation
        then (b, Inl (ValueError (''Remote operation integrity check failed: '' @ operation_id operation)))
      else
        let b1 = b\<lparr>buffer_vector_clock := update (buffer_vector_clock b) (vector_clock operation)\<rparr>
        in case (if pending_operations b1 \<noteq> [] then
                   (case transform_operations rt [operation] (pending_operations b1) of
                      Inl e \<Rightarrow> Inl e
                    | Inr (transformed_remote, transformed_pending) \<Rightarrow>
                        (case transformed_remote of
                           [] \<Rightarrow> Inl IndexError
                         | operation' # _ \<Rightarrow>
                             Inr (operation', b1\<lparr>pending_operations := transformed_pending\<rparr>)))
                 else Inr (operation, b1)) of
             Inl e \<Rightarrow> (b1, Inl e)
           | Inr (operation', b2) \<Rightarrow>
               (case apply_operation rt (content b2) operation' of
                  Inl e \<Rightarrow> (b2, Inl e)
                | Inr new_content \<Rightarrow>
                    (let b3 = b2\<lparr>content := new_content,
                                 operation_history := operation_history b2 @ [operation']\<rparr>;
                         b4 = update_performance_metrics clock b3;
                         b5 = b4\<lparr>state_hash := calculate_state_hash rt (content b4) (buffer_vector_clock b4)\<rparr>
                     in (b5, Inr (content b5)))))"

text \<open>
  The buffers a program can reach: a fresh buffer, then any sequence of the two methods
  that write to it, whether they return or raise.
\<close>

inductive reachable :: "runtime \<Rightarrow> OperationBuffer \<Rightarrow> bool" for rt :: runtime where
  init: "reachable rt (OperationBuffer_init rt clock initial_content cid)"
| local_step: "reachable rt b \<Longrightarrow> reachable rt (fst (apply_local_operation rt clock b operation))"
| remote_step: "reachable rt b \<Longrightarrow> reachable rt (fst (apply_remote_operation rt clock b operation))"

section \<open>ot.py: the helpers that create operations, and the diff\<close>









section \<open>sessions.py: session state\<close>

text \<open>
  The values a stored session holds. \<^verbatim>\<open>from_dict\<close> reads a dict of them and checks
  no type, so the fields it passes through are kept as values.
\<close>

datatype pyvalue = PyNone | PyInt int | PyStr string | PyList "pyvalue list" | PyDict "(string \<times> pyvalue) list"

text \<open>
  \<^verbatim>\<open>created_at\<close> and \<^verbatim>\<open>last_activity\<close> are datetimes, kept as points on the
  real line; \<^verbatim>\<open>datetime.fromisoformat\<close> is a parameter, \<open>None\<close> where it raises.
\<close>

record SessionState =
  session_id :: pyvalue
  session_content :: pyvalue
  users :: "pyvalue set"
  created_at :: real
  last_activity :: real
  version :: pyvalue
  operation_count :: pyvalue
  content_checksum :: pyvalue
  metadata :: pyvalue

text \<open>\<^verbatim>\<open>self.content.encode()\<close>: only a string has the method.\<close>

definition encode :: "pyvalue \<Rightarrow> error + string" where
  "encode v = (case v of PyStr s \<Rightarrow> Inr s | _ \<Rightarrow> Inl AttributeError)"

text \<open>
  \<^verbatim>\<open>SessionState(...)\<close>: the dataclass stores the fields it is given and runs
  \<^verbatim>\<open>__post_init__\<close>, which assigns \<^verbatim>\<open>content_checksum\<close> whatever was passed.
\<close>

definition SessionState_post_init :: "runtime \<Rightarrow> SessionState \<Rightarrow> error + SessionState" where
  "SessionState_post_init rt st =
     (let st1 = (if metadata st = PyNone then st\<lparr>metadata := PyDict []\<rparr> else st)
      in case encode (session_content st1) of
           Inl e \<Rightarrow> Inl e
         | Inr bytes \<Rightarrow> Inr (st1\<lparr>content_checksum := PyStr (take 16 (sha256_hexdigest rt bytes))\<rparr>))"

definition SessionState_verify_integrity :: "runtime \<Rightarrow> SessionState \<Rightarrow> error + bool" where
  "SessionState_verify_integrity rt st =
     (case encode (session_content st) of
        Inl e \<Rightarrow> Inl e
      | Inr bytes \<Rightarrow> Inr (content_checksum st = PyStr (take 16 (sha256_hexdigest rt bytes))))"

definition dict_item :: "(string \<times> pyvalue) list \<Rightarrow> string \<Rightarrow> error + pyvalue" where
  "dict_item d k = (case map_of d k of None \<Rightarrow> Inl (KeyError k) | Some v \<Rightarrow> Inr v)"

definition dict_get :: "(string \<times> pyvalue) list \<Rightarrow> string \<Rightarrow> pyvalue \<Rightarrow> pyvalue" where
  "dict_get d k dflt = (case map_of d k of None \<Rightarrow> dflt | Some v \<Rightarrow> v)"

fun hashable :: "pyvalue \<Rightarrow> bool" where
  "hashable (PyList xs) = False"
| "hashable (PyDict kvs) = False"
| "hashable v = True"

text \<open>\<^verbatim>\<open>set(v)\<close>: the elements of a list, the characters of a string, the keys of a dict.\<close>

definition py_set :: "pyvalue \<Rightarrow> error + pyvalue set" where
  "py_set v =
     (case v of
        PyList xs \<Rightarrow> if list_all hashable xs then Inr (set xs) else Inl TypeError
      | PyStr s \<Rightarrow> Inr ((\<lambda>c. PyStr [c]) ` set s)
      | PyDict kvs \<Rightarrow> Inr ((\<lambda>kv. PyStr (fst kv)) ` set kvs)
      | _ \<Rightarrow> Inl TypeError)"

definition py_fromisoformat :: "(string \<Rightarrow> real option) \<Rightarrow> pyvalue \<Rightarrow> error + real" where
  "py_fromisoformat fromisoformat v =
     (case v of
        PyStr s \<Rightarrow> (case fromisoformat s of
                      None \<Rightarrow> Inl (ValueError ''Invalid isoformat string'')
                    | Some t \<Rightarrow> Inr t)
      | _ \<Rightarrow> Inl TypeError)"

definition from_dict ::
  "runtime \<Rightarrow> (string \<Rightarrow> real option) \<Rightarrow> (string \<times> pyvalue) list \<Rightarrow> error + SessionState" where
  "from_dict rt fromisoformat data =
     (case dict_item data ''session_id'' of Inl e \<Rightarrow> Inl e | Inr sid \<Rightarrow>
      case dict_item data ''content'' of Inl e \<Rightarrow> Inl e | Inr cont \<Rightarrow>
      case dict_item data ''users'' of Inl e \<Rightarrow> Inl e | Inr us \<Rightarrow>
      case py_set us of Inl e \<Rightarrow> Inl e | Inr user_set \<Rightarrow>
      case dict_item data ''created_at'' of Inl e \<Rightarrow> Inl e | Inr ca \<Rightarrow>
      case py_fromisoformat fromisoformat ca of Inl e \<Rightarrow> Inl e | Inr created \<Rightarrow>
      case dict_item data ''last_activity'' of Inl e \<Rightarrow> Inl e | Inr la \<Rightarrow>
      case py_fromisoformat fromisoformat la of Inl e \<Rightarrow> Inl e | Inr last_seen \<Rightarrow>
        SessionState_post_init rt
          \<lparr>session_id = sid, session_content = cont, users = user_set, created_at = created,
           last_activity = last_seen, version = dict_get data ''version'' (PyInt 0),
           operation_count = dict_get data ''operation_count'' (PyInt 0),
           content_checksum = dict_get data ''content_checksum'' (PyStr []),
           metadata = dict_get data ''metadata'' (PyDict [])\<rparr>)"

section \<open>sessions.py: reading a session\<close>

record SessionManager =
  local_cache :: "string \<rightharpoonup> SessionState"
  cache_timestamps :: "string \<rightharpoonup> real"
  cache_ttl :: real
  metrics :: "string \<Rightarrow> int"

definition bump :: "string \<Rightarrow> SessionManager \<Rightarrow> SessionManager" where
  "bump k m = m\<lparr>metrics := (metrics m)(k := metrics m k + 1)\<rparr>"

definition is_cache_valid :: "SessionManager \<Rightarrow> real \<Rightarrow> string \<Rightarrow> bool" where
  "is_cache_valid m now sid =
     (case local_cache m sid of
        None \<Rightarrow> False
      | Some st \<Rightarrow> now - (case cache_timestamps m sid of None \<Rightarrow> 0 | Some t \<Rightarrow> t) < cache_ttl m)"

text \<open>
  \<^verbatim>\<open>get_session\<close>. \<open>redis_reply\<close> is what fetching the hash from the store gives: the
  dict, or the exception raised. \<open>clock n\<close> is the \<open>n\<close>-th reading of the time. An
  exception anywhere in the \<^verbatim>\<open>try\<close> block leads to the \<^verbatim>\<open>except\<close> branch.
\<close>

definition get_session ::
  "runtime \<Rightarrow> (string \<Rightarrow> real option) \<Rightarrow> (nat \<Rightarrow> real) \<Rightarrow> SessionManager
     \<Rightarrow> error + (string \<times> pyvalue) list \<Rightarrow> string \<Rightarrow> SessionManager \<times> SessionState option" where
  "get_session rt fromisoformat clock m redis_reply sid =
     (if is_cache_valid m (clock 0) sid then (bump ''cache_hits'' m, local_cache m sid)
      else
        let m1 = bump ''cache_misses'' m;
            on_exception = (bump ''redis_errors'' m1, local_cache m1 sid)
        in case redis_reply of
             Inl e \<Rightarrow> on_exception
           | Inr session_data \<Rightarrow>
               if session_data = [] then (m1, None)
               else
                 (case from_dict rt fromisoformat session_data of
                    Inl e \<Rightarrow> on_exception
                  | Inr session_state \<Rightarrow>
                      (case SessionState_verify_integrity rt session_state of
                         Inl e \<Rightarrow> on_exception
                       | Inr ok \<Rightarrow>
                           if \<not> ok then (bump ''redis_errors'' m1, None)
                           else
                             (m1\<lparr>local_cache := (local_cache m1)(sid \<mapsto> session_state),
                                 cache_timestamps := (cache_timestamps m1)(sid \<mapsto> clock 1)\<rparr>,
                              Some session_state))))"

section \<open>manager.py: the rate limiter\<close>










section \<open>manager.py: handling a message\<close>












section \<open>Devices for stating the properties\<close>

text \<open>
  Applying operations one after the other, each to the text the previous one left,
  stopping at the first error: \<^verbatim>\<open>apply(apply(T, a), b)\<close>.
\<close>

fun apply_in_order :: "runtime \<Rightarrow> string \<Rightarrow> Operation list \<Rightarrow> error + string" where
  "apply_in_order rt text [] = Inr text"
| "apply_in_order rt text (op # ops) =
     (case apply_operation rt text op of Inl e \<Rightarrow> Inl e | Inr text' \<Rightarrow> apply_in_order rt text' ops)"

text \<open>
  The affected range of an operation in the words of the specification: an insert
  occupies the empty range at its position, a delete the range from its position to its
  position plus its length. Two ranges \<open>[s1, e1)\<close> and \<open>[s2, e2)\<close> do not overlap
  when one of them ends at or before the point where the other starts; so an insertion
  point strictly inside a deleted range overlaps it, and one at either end does not.
\<close>

definition affected_range :: "Operation \<Rightarrow> int \<times> int" where
  "affected_range op = (position op, position op + (if type_op op = DELETE then length_op op else 0))"

fun ranges_overlap :: "int \<times> int \<Rightarrow> int \<times> int \<Rightarrow> bool" where
  "ranges_overlap (s1, e1) (s2, e2) = (s2 < e1 \<and> s1 < e2)"

text \<open>
  What the constructor leaves when it is given neither an operation id nor a checksum
  and does not raise.
\<close>

definition stamped :: "runtime \<Rightarrow> Operation \<Rightarrow> Operation" where
  "stamped rt op =
     op\<lparr>operation_id := generate_operation_id rt op, checksum := generate_checksum rt op\<rparr>"

text \<open>
  A runtime to evaluate the model on concrete inputs. Its digests are stand-ins (the
  input, padded with zeros to the length of a digest); the properties below are proved
  for every runtime and instantiated with this one.
\<close>

definition example_runtime :: runtime where
  "example_runtime =
     \<lparr>md5_hexdigest = (\<lambda>s. take 32 (s @ replicate 32 (CHR ''0''))),
      sha256_hexdigest = (\<lambda>s. take 64 (s @ replicate 64 (CHR ''0''))),
      float_str = (\<lambda>r. ''t''),
      items_str = (\<lambda>kvs. concat (map (\<lambda>(k, v). k @ '':'' @ str_int v @ '','') kvs))\<rparr>"

text \<open>The arguments of the constructor calls of the scenarios below.\<close>

definition insert_args :: "int \<Rightarrow> string \<Rightarrow> string \<Rightarrow> Operation" where
  "insert_args pos txt cid =
     \<lparr>type_op = INSERT, position = pos, text_op = txt, length_op = 0, client_id = cid,
      operation_id = [], vector_clock = \<lparr>clocks = [(cid, 1)]\<rparr>, timestamp = 1, checksum = []\<rparr>"

definition delete_args :: "int \<Rightarrow> int \<Rightarrow> string \<Rightarrow> Operation" where
  "delete_args pos len cid =
     \<lparr>type_op = DELETE, position = pos, text_op = [], length_op = len, client_id = cid,
      operation_id = [], vector_clock = \<lparr>clocks = [(cid, 1)]\<rparr>, timestamp = 1, checksum = []\<rparr>"



text \<open>A stored session whose checksum does not match its content, and an empty manager.\<close>

definition example_stored :: "(string \<times> pyvalue) list" where
  "example_stored =
     [(''session_id'', PyStr ''s1''), (''content'', PyStr ''hi''), (''users'', PyList [PyStr ''u'']),
      (''created_at'', PyStr ''t''), (''last_activity'', PyStr ''t''),
      (''content_checksum'', PyStr ''tampered'')]"

definition example_loaded :: SessionState where
  "example_loaded =
     \<lparr>session_id = PyStr ''s1'', session_content = PyStr ''hi'', users = {PyStr ''u''},
      created_at = 0, last_activity = 0, version = PyInt 0, operation_count = PyInt 0,
      content_checksum = PyStr ''hi00000000000000'', metadata = PyDict []\<rparr>"

definition example_manager :: SessionManager where
  "example_manager =
     \<lparr>local_cache = Map.empty, cache_timestamps = Map.empty, cache_ttl = 30, metrics = (\<lambda>k. 0)\<rparr>"




section \<open>Vector clocks: what compare computes\<close>

lemma map_of_dict_set: "map_of (dict_set k v d) = (map_of d)(k \<mapsto> v)"
  by (induction d) (auto simp: fun_eq_iff)

lemma clocks_get_increment:
  "clocks_get (increment vc c) c' = (if c' = c then clocks_get vc c + 1 else clocks_get vc c')"
  by (simp add: clocks_get_def increment_def map_of_dict_set)

lemma compare_loop_flags:
  "compare_loop a b cs (sl, ol) =
     (sl \<or> (\<exists>c\<in>set cs. clocks_get a c > clocks_get b c),
      ol \<or> (\<exists>c\<in>set cs. clocks_get a c < clocks_get b c))"
  by (induction cs arbitrary: sl ol) (auto simp: Let_def)

lemma clocks_get_absent: "c \<notin> set (map fst (clocks vc)) \<Longrightarrow> clocks_get vc c = 0"
  by (simp add: clocks_get_def map_of_eq_None_iff[THEN iffD2])

lemma compare_loop_all_clients:
  "compare_loop a b (remdups (map fst (clocks a) @ map fst (clocks b))) (False, False) =
     (\<exists>c. clocks_get b c < clocks_get a c, \<exists>c. clocks_get a c < clocks_get b c)"
proof -
  let ?K = "set (map fst (clocks a)) \<union> set (map fst (clocks b))"
  have out: "clocks_get a c = clocks_get b c" if "c \<notin> ?K" for c
    using that by (simp add: clocks_get_absent)
  have 1: "(\<exists>c\<in>?K. clocks_get a c > clocks_get b c) \<longleftrightarrow> (\<exists>c. clocks_get a c > clocks_get b c)"
    using out by (metis less_irrefl)
  have 2: "(\<exists>c\<in>?K. clocks_get a c < clocks_get b c) \<longleftrightarrow> (\<exists>c. clocks_get a c < clocks_get b c)"
    using out by (metis less_irrefl)
  show ?thesis
    unfolding compare_loop_flags using 1 2 by simp
qed

text \<open>
  The result of \<open>compare\<close> in terms of the components, an absent entry reading 0. The
  order in which the loop visits the clients does not matter.
\<close>

lemma compare_eq:
  "compare a b =
     (if (\<exists>c. clocks_get b c < clocks_get a c) \<and> (\<exists>c. clocks_get a c < clocks_get b c) then ''concurrent''
      else if (\<exists>c. clocks_get b c < clocks_get a c) then ''before''
      else if (\<exists>c. clocks_get a c < clocks_get b c) then ''after''
      else ''equal'')"
  unfolding compare_def Let_def compare_loop_all_clients by simp

text \<open>
  \<open>compare\<close> answers \<open>before\<close> exactly when every component of \<open>self\<close> is at least
  the component of \<open>other\<close> and one is strictly greater: the reverse of the standard
  order.
\<close>

lemma compare_before_iff:
  "compare a b = ''before'' \<longleftrightarrow>
     (\<forall>c. clocks_get b c \<le> clocks_get a c) \<and> (\<exists>c. clocks_get b c < clocks_get a c)"
proof -
  have "(\<forall>c. clocks_get b c \<le> clocks_get a c) \<longleftrightarrow> \<not> (\<exists>c. clocks_get a c < clocks_get b c)"
    by (simp add: not_less)
  then show ?thesis unfolding compare_eq by simp
qed

text \<open>
  C2. The claim: \<open>compare\<close> answers \<open>before\<close> iff every component of \<open>self\<close> is at
  most that of \<open>other\<close> and one is strictly less, and a clock compared after
  \<open>increment\<close> against the clock before it answers \<open>after\<close>. The code does the
  reverse: for every clock and client, the incremented clock compared against the old one
  answers \<open>before\<close>.
\<close>

theorem compare_incremented_with_old: "compare (increment vc c) vc = ''before''"
  unfolding compare_before_iff by (auto simp: clocks_get_increment intro: exI[of _ c])

theorem compare_incremented_with_old_witness:
  "compare (increment \<lparr>clocks = []\<rparr> ''a'') \<lparr>clocks = []\<rparr> = ''before'' \<and>
   increment \<lparr>clocks = []\<rparr> ''a'' = \<lparr>clocks = [(''a'', 1)]\<rparr>"
  using compare_incremented_with_old [of "\<lparr>clocks = []\<rparr>" "''a''"]
  by (simp add: increment_def clocks_get_def)

section \<open>Operations built by the constructor\<close>

lemma post_init_stamped:
  "operation_id op = [] \<Longrightarrow> checksum op = [] \<Longrightarrow>
   \<not> (type_op op = INSERT \<and> text_op op = []) \<Longrightarrow> \<not> (type_op op = DELETE \<and> length_op op \<le> 0) \<Longrightarrow>
   post_init rt op = Inr (stamped rt op)"
  by (simp add: post_init_def stamped_def Let_def generate_checksum_def)

lemma verify_integrity_stamped: "verify_integrity rt (stamped rt op)"
  by (simp add: verify_integrity_def stamped_def generate_checksum_def)

lemma stamped_fields:
  "type_op (stamped rt op) = type_op op" "position (stamped rt op) = position op"
  "text_op (stamped rt op) = text_op op" "length_op (stamped rt op) = length_op op"
  "client_id (stamped rt op) = client_id op" "vector_clock (stamped rt op) = vector_clock op"
  "timestamp (stamped rt op) = timestamp op"
  by (simp_all add: stamped_def)

lemma apply_insert_stamped:
  "type_op op = INSERT \<Longrightarrow> 0 \<le> position op \<Longrightarrow> position op \<le> int (length text) \<Longrightarrow>
   apply_operation rt text (stamped rt op) =
     Inr (take (nat (position op)) text @ text_op op @ drop (nat (position op)) text)"
  by (simp add: apply_operation_def verify_integrity_stamped Let_def stamped_fields min_def max_def)

lemma insert_args_fields:
  "type_op (insert_args p s c) = INSERT" "position (insert_args p s c) = p"
  "text_op (insert_args p s c) = s" "length_op (insert_args p s c) = 0"
  "client_id (insert_args p s c) = c" "vector_clock (insert_args p s c) = \<lparr>clocks = [(c, 1)]\<rparr>"
  "operation_id (insert_args p s c) = []" "checksum (insert_args p s c) = []"
  by (simp_all add: insert_args_def)

lemma delete_args_fields:
  "type_op (delete_args p n c) = DELETE" "position (delete_args p n c) = p"
  "text_op (delete_args p n c) = []" "length_op (delete_args p n c) = n"
  "client_id (delete_args p n c) = c" "vector_clock (delete_args p n c) = \<lparr>clocks = [(c, 1)]\<rparr>"
  "operation_id (delete_args p n c) = []" "checksum (delete_args p n c) = []"
  by (simp_all add: delete_args_def)

section \<open>Transforming a pair\<close>

text \<open>
  C5. If two operations have the same client id, or their affected ranges do not
  overlap, \<open>transform_operation_pair\<close> returns the pair unchanged.
\<close>

theorem transform_pair_unchanged:
  assumes "client_id a = client_id b \<or> \<not> ranges_overlap (affected_range a) (affected_range b)"
  shows "transform_operation_pair rt a b = Inr (a, b)"
  using assms
  by (auto simp: transform_operation_pair_def operations_conflict_def affected_range_def Let_def)

theorem transform_pair_unchanged_witness:
  "client_id (stamped example_runtime (insert_args 2 ''xx'' ''a''))
     = client_id (stamped example_runtime (delete_args 1 3 ''a'')) \<and>
   transform_operation_pair example_runtime
       (stamped example_runtime (insert_args 2 ''xx'' ''a''))
       (stamped example_runtime (delete_args 1 3 ''a''))
     = Inr (stamped example_runtime (insert_args 2 ''xx'' ''a''),
            stamped example_runtime (delete_args 1 3 ''a'')) \<and>
   client_id (stamped example_runtime (delete_args 0 2 ''a''))
     \<noteq> client_id (stamped example_runtime (delete_args 2 3 ''b'')) \<and>
   \<not> ranges_overlap (affected_range (stamped example_runtime (delete_args 0 2 ''a'')))
                      (affected_range (stamped example_runtime (delete_args 2 3 ''b''))) \<and>
   transform_operation_pair example_runtime
       (stamped example_runtime (delete_args 0 2 ''a''))
       (stamped example_runtime (delete_args 2 3 ''b''))
     = Inr (stamped example_runtime (delete_args 0 2 ''a''),
            stamped example_runtime (delete_args 2 3 ''b''))"
  using transform_pair_unchanged [of "stamped example_runtime (insert_args 2 ''xx'' ''a'')"
          "stamped example_runtime (delete_args 1 3 ''a'')" example_runtime]
        transform_pair_unchanged [of "stamped example_runtime (delete_args 0 2 ''a'')"
          "stamped example_runtime (delete_args 2 3 ''b'')" example_runtime]
  by (simp add: stamped_fields insert_args_fields delete_args_fields affected_range_def)

text \<open>
  With the reading of ranges as sets of positions the hypothesis would be weaker than
  the guard of the code: an insertion point strictly inside a deleted range meets no
  position of it, and the code still transforms the pair.
\<close>

lemma insert_inside_delete_conflicts:
  "type_op a = INSERT \<Longrightarrow> type_op b = DELETE \<Longrightarrow>
   position b < position a \<Longrightarrow> position a < position b + length_op b \<Longrightarrow>
   operations_conflict a b \<and> ranges_overlap (affected_range a) (affected_range b)"
  by (simp add: operations_conflict_def affected_range_def Let_def)

text \<open>
  C3. The claim: for two concurrent inserts from distinct clients,
  \<open>transform_operation_pair\<close> shifts the insert at the later position by the length of
  the earlier text, and at equal positions shifts the priority loser; clients \<open>a\<close> and
  \<open>b\<close> inserting \<open>A\<close> and \<open>B\<close> at 0 into the empty text both end with \<open>AB\<close>. The
  code: the range of an insert is empty, so \<open>operations_conflict\<close> is false for every
  pair of inserts and the pair comes back unchanged; \<open>transform_insert_insert\<close> is never
  reached.
\<close>

theorem insert_pair_unchanged:
  "type_op a = INSERT \<Longrightarrow> type_op b = INSERT \<Longrightarrow> transform_operation_pair rt a b = Inr (a, b)"
  by (auto simp: transform_operation_pair_def operations_conflict_def Let_def)

theorem insert_pair_unchanged_witness:
  "client_id (stamped example_runtime (insert_args 0 ''A'' ''a''))
     \<noteq> client_id (stamped example_runtime (insert_args 0 ''B'' ''b'')) \<and>
   compare (vector_clock (stamped example_runtime (insert_args 0 ''A'' ''a'')))
           (vector_clock (stamped example_runtime (insert_args 0 ''B'' ''b''))) = ''concurrent'' \<and>
   transform_operation_pair example_runtime
       (stamped example_runtime (insert_args 0 ''A'' ''a''))
       (stamped example_runtime (insert_args 0 ''B'' ''b''))
     = Inr (stamped example_runtime (insert_args 0 ''A'' ''a''),
            stamped example_runtime (insert_args 0 ''B'' ''b'')) \<and>
   apply_in_order example_runtime []
       [stamped example_runtime (insert_args 0 ''A'' ''a''),
        stamped example_runtime (insert_args 0 ''B'' ''b'')] = Inr ''BA'' \<and>
   apply_in_order example_runtime []
       [stamped example_runtime (insert_args 0 ''B'' ''b''),
        stamped example_runtime (insert_args 0 ''A'' ''a'')] = Inr ''AB''"
  using insert_pair_unchanged [of "stamped example_runtime (insert_args 0 ''A'' ''a'')"
          "stamped example_runtime (insert_args 0 ''B'' ''b'')" example_runtime]
  by (simp add: stamped_fields insert_args_fields apply_insert_stamped compare_def clocks_get_def)

lemma transform_inserts_at_distinct_positions:
  "transform_operation_pair rt (stamped rt (insert_args 0 ''X'' ''X'')) (stamped rt (insert_args 3 ''Y'' ''Y''))
     = Inr (stamped rt (insert_args 0 ''X'' ''X''), stamped rt (insert_args 3 ''Y'' ''Y''))"
  by (auto simp: transform_operation_pair_def operations_conflict_def Let_def stamped_fields
        insert_args_fields)

text \<open>
  C1. The claim (TP1): for concurrent operations \<open>a\<close> and \<open>b\<close> of distinct clients and
  \<open>(a', b')\<close> their transformed pair, applying \<open>a\<close> then \<open>b'\<close> gives the text that
  applying \<open>b\<close> then \<open>a'\<close> gives. The code, for every runtime: on \<open>ABC\<close>, client
  \<open>X\<close> inserting \<open>X\<close> at 0 and client \<open>Y\<close> inserting \<open>Y\<close> at 3 are built without
  error, are concurrent, come back from the transformation unchanged, and the two orders give
  \<open>XABYC\<close> and \<open>XABCY\<close>.
\<close>

theorem tp1_fails_on_disjoint_inserts:
  "post_init rt (insert_args 0 ''X'' ''X'') = Inr (stamped rt (insert_args 0 ''X'' ''X'')) \<and>
   post_init rt (insert_args 3 ''Y'' ''Y'') = Inr (stamped rt (insert_args 3 ''Y'' ''Y'')) \<and>
   compare (vector_clock (stamped rt (insert_args 0 ''X'' ''X'')))
           (vector_clock (stamped rt (insert_args 3 ''Y'' ''Y''))) = ''concurrent'' \<and>
   transform_operation_pair rt (stamped rt (insert_args 0 ''X'' ''X'')) (stamped rt (insert_args 3 ''Y'' ''Y''))
     = Inr (stamped rt (insert_args 0 ''X'' ''X''), stamped rt (insert_args 3 ''Y'' ''Y'')) \<and>
   apply_in_order rt ''ABC'' [stamped rt (insert_args 0 ''X'' ''X''), stamped rt (insert_args 3 ''Y'' ''Y'')]
     = Inr ''XABYC'' \<and>
   apply_in_order rt ''ABC'' [stamped rt (insert_args 3 ''Y'' ''Y''), stamped rt (insert_args 0 ''X'' ''X'')]
     = Inr ''XABCY''"
  apply (intro conjI)
       apply (simp add: post_init_stamped insert_args_fields)
      apply (simp add: post_init_stamped insert_args_fields)
     apply (simp add: stamped_fields insert_args_fields compare_def clocks_get_def)
    apply (rule transform_inserts_at_distinct_positions)
   apply (simp add: apply_insert_stamped insert_args_fields)
  apply (simp add: apply_insert_stamped insert_args_fields)
  done

theorem tp1_fails_on_disjoint_inserts_witness:
  "apply_in_order example_runtime ''ABC''
     [stamped example_runtime (insert_args 0 ''X'' ''X''), stamped example_runtime (insert_args 3 ''Y'' ''Y'')]
     = Inr ''XABYC'' \<and>
   apply_in_order example_runtime ''ABC''
     [stamped example_runtime (insert_args 3 ''Y'' ''Y''), stamped example_runtime (insert_args 0 ''X'' ''X'')]
     = Inr ''XABCY''"
  using tp1_fails_on_disjoint_inserts [of example_runtime] by simp

section \<open>Batches\<close>

text \<open>
  C4. The claim: \<open>apply_operations\<close> applies the operations sorted by timestamp and then
  by kind, Retain before Insert before Delete. The code sorts on the enum's string value,
  and \<open>delete\<close> < \<open>insert\<close> < \<open>retain\<close>: of an insert and a delete with the same
  timestamp the delete goes first.
\<close>

theorem sorted_ops_insert_delete:
  "timestamp a = timestamp b \<Longrightarrow> type_op a = INSERT \<Longrightarrow> type_op b = DELETE \<Longrightarrow>
   sorted_ops [a, b] = [b, a]"
  by (simp add: sorted_ops_def)

theorem sorted_ops_insert_delete_witness:
  "timestamp (stamped example_runtime (insert_args 0 ''X'' ''a''))
     = timestamp (stamped example_runtime (delete_args 0 1 ''a'')) \<and>
   sorted_ops [stamped example_runtime (insert_args 0 ''X'' ''a''),
               stamped example_runtime (delete_args 0 1 ''a'')]
     = [stamped example_runtime (delete_args 0 1 ''a''),
        stamped example_runtime (insert_args 0 ''X'' ''a'')]"
  using sorted_ops_insert_delete [of "stamped example_runtime (insert_args 0 ''X'' ''a'')"
          "stamped example_runtime (delete_args 0 1 ''a'')"]
  by (simp add: stamped_fields insert_args_fields delete_args_fields insert_args_def delete_args_def)

section \<open>Construction of operations\<close>




section \<open>The operation buffer\<close>

lemma pending_local: "pending_operations (fst (apply_local_operation rt clock b op)) = pending_operations b"
  by (simp add: apply_local_operation_def Let_def update_performance_metrics_def split: sum.splits)

lemma pending_remote:
  "pending_operations b = [] \<Longrightarrow> pending_operations (fst (apply_remote_operation rt clock b op)) = []"
  by (simp add: apply_remote_operation_def Let_def update_performance_metrics_def split: sum.splits)

lemma reachable_pending: "reachable rt b \<Longrightarrow> pending_operations b = []"
  by (induction rule: reachable.induct)
     (simp_all add: OperationBuffer_init_def pending_local pending_remote)

text \<open>
  C9. In every reachable buffer \<open>pending_operations\<close> is empty, so
  \<open>apply_remote_operation\<close> never transforms: for an operation that passes the integrity
  check it returns what \<open>apply_operation\<close> returns on the content and the operation as
  received, and on success it stores that content and appends that operation to the
  history.
\<close>

theorem remote_applied_as_received:
  assumes "reachable rt b"
  shows "pending_operations b = [] \<and>
         (verify_integrity rt op \<longrightarrow>
            snd (apply_remote_operation rt clock b op) = apply_operation rt (content b) op \<and>
            (\<forall>c. apply_operation rt (content b) op = Inr c \<longrightarrow>
               content (fst (apply_remote_operation rt clock b op)) = c \<and>
               operation_history (fst (apply_remote_operation rt clock b op)) = operation_history b @ [op]))"
  using reachable_pending [OF assms]
  by (auto simp: apply_remote_operation_def Let_def update_performance_metrics_def split: sum.splits)

theorem remote_applied_as_received_witness:
  "reachable example_runtime (OperationBuffer_init example_runtime (\<lambda>n. 0) ''ABC'' ''srv'') \<and>
   verify_integrity example_runtime (stamped example_runtime (insert_args 0 ''X'' ''X'')) \<and>
   snd (apply_remote_operation example_runtime (\<lambda>n. 0)
          (OperationBuffer_init example_runtime (\<lambda>n. 0) ''ABC'' ''srv'')
          (stamped example_runtime (insert_args 0 ''X'' ''X''))) = Inr ''XABC''"
proof -
  let ?b = "OperationBuffer_init example_runtime (\<lambda>n. 0) ''ABC'' ''srv''"
  let ?op = "stamped example_runtime (insert_args 0 ''X'' ''X'')"
  have r: "reachable example_runtime ?b" by (rule reachable.init)
  have v: "verify_integrity example_runtime ?op" by (rule verify_integrity_stamped)
  have c: "content ?b = ''ABC''" by (simp add: OperationBuffer_init_def)
  from remote_applied_as_received [OF r] v
  have "snd (apply_remote_operation example_runtime (\<lambda>n. 0) ?b ?op)
          = apply_operation example_runtime (content ?b) ?op"
    by blast
  then have "snd (apply_remote_operation example_runtime (\<lambda>n. 0) ?b ?op) = Inr ''XABC''"
    unfolding c by (simp add: apply_insert_stamped insert_args_fields)
  with r v show ?thesis by blast
qed

section \<open>The diff\<close>


















section \<open>Session integrity\<close>

lemma post_init_verifies:
  "SessionState_post_init rt st = Inr st' \<Longrightarrow>
   SessionState_verify_integrity rt st' = Inr True \<and>
   (\<exists>c. session_content st = PyStr c \<and> content_checksum st' = PyStr (take 16 (sha256_hexdigest rt c)))"
  by (auto simp: SessionState_post_init_def SessionState_verify_integrity_def encode_def Let_def
        split: pyvalue.splits if_splits)

lemma from_dict_post_init:
  "from_dict rt f data = Inr st \<Longrightarrow> \<exists>raw. SessionState_post_init rt raw = Inr st \<and>
      dict_item data ''content'' = Inr (session_content raw)"
  by (auto simp: from_dict_def split: sum.splits)

text \<open>
  C10. \<open>__post_init__\<close> recomputes the checksum from the content whatever checksum it
  is given, so every session state that is constructed, also by \<open>from_dict\<close> from
  stored data with any stored checksum, passes \<open>verify_integrity\<close>. In
  \<open>get_session\<close>, stored data that \<open>from_dict\<close> accepts is therefore cached and
  returned: the branch for a failed integrity check is never taken, and a stored checksum
  that does not match is replaced.
\<close>

theorem session_integrity_never_fails:
  "(SessionState_post_init rt raw = Inr st \<longrightarrow> SessionState_verify_integrity rt st = Inr True) \<and>
   (from_dict rt f data = Inr st \<longrightarrow>
      SessionState_verify_integrity rt st = Inr True \<and>
      (\<exists>c. dict_item data ''content'' = Inr (PyStr c) \<and>
           content_checksum st = PyStr (take 16 (sha256_hexdigest rt c))) \<and>
      (\<not> is_cache_valid m (clock 0) sid \<and> data \<noteq> [] \<longrightarrow>
         get_session rt f clock m (Inr data) sid =
           ((bump ''cache_misses'' m)
              \<lparr>local_cache := (local_cache m)(sid \<mapsto> st),
               cache_timestamps := (cache_timestamps m)(sid \<mapsto> clock 1)\<rparr>,
            Some st)))"
proof (intro conjI impI)
  assume "SessionState_post_init rt raw = Inr st"
  then show "SessionState_verify_integrity rt st = Inr True"
    using post_init_verifies by blast
next
  assume fd: "from_dict rt f data = Inr st"
  then obtain raw' where r: "SessionState_post_init rt raw' = Inr st"
      and c: "dict_item data ''content'' = Inr (session_content raw')"
    using from_dict_post_init by blast
  from post_init_verifies [OF r] show v: "SessionState_verify_integrity rt st = Inr True" by simp
  from post_init_verifies [OF r] c
  show "\<exists>c. dict_item data ''content'' = Inr (PyStr c) \<and>
           content_checksum st = PyStr (take 16 (sha256_hexdigest rt c))" by auto
  assume "\<not> is_cache_valid m (clock 0) sid \<and> data \<noteq> []"
  then show "get_session rt f clock m (Inr data) sid =
           ((bump ''cache_misses'' m)
              \<lparr>local_cache := (local_cache m)(sid \<mapsto> st),
               cache_timestamps := (cache_timestamps m)(sid \<mapsto> clock 1)\<rparr>,
            Some st)"
    using fd v by (simp add: get_session_def Let_def bump_def)
qed

theorem session_integrity_never_fails_witness:
  "from_dict example_runtime (\<lambda>s. Some 0) example_stored = Inr example_loaded \<and>
   dict_get example_stored ''content_checksum'' (PyStr []) = PyStr ''tampered'' \<and>
   content_checksum example_loaded = PyStr ''hi00000000000000'' \<and>
   SessionState_verify_integrity example_runtime example_loaded = Inr True \<and>
   snd (get_session example_runtime (\<lambda>s. Some 0) (\<lambda>n. 0) example_manager (Inr example_stored) ''s1'')
     = Some example_loaded"
proof -
  have fd: "from_dict example_runtime (\<lambda>s. Some 0) example_stored = Inr example_loaded"
    by (simp add: from_dict_def example_stored_def example_loaded_def dict_item_def dict_get_def
          py_set_def py_fromisoformat_def SessionState_post_init_def encode_def Let_def
          example_runtime_def eval_nat_numeral)
  have nv: "\<not> is_cache_valid example_manager 0 ''s1''"
    by (simp add: is_cache_valid_def example_manager_def)
  have ne: "example_stored \<noteq> []" by (simp add: example_stored_def)
  from session_integrity_never_fails [where rt = example_runtime and f = "\<lambda>s. Some 0"
          and data = example_stored and st = example_loaded and m = example_manager
          and clock = "\<lambda>n. 0" and sid = "''s1''"] fd nv ne
  show ?thesis
    by (simp add: dict_get_def example_stored_def example_loaded_def)
qed

section \<open>Rate limiting\<close>

















end
